theory Spec2Isabelle
  imports Main
begin

section \<open>Go values and maps\<close>

text \<open>
  A Go map is a reference that is either \<open>nil\<close> or points at a finite table. Reading a
  \<open>nil\<close> map behaves like reading an empty one, \<open>delete\<close> on it does nothing, and an
  assignment into it panics. A map value is therefore an optional partial function, with
  \<open>None\<close> for \<open>nil\<close>.

  \<open>val\<close> is the dynamic content of an \<open>interface{}\<close>: the \<open>nil\<close> interface, a
  \<open>string\<close>, an \<open>int\<close>, a \<open>bool\<close>, a \<open>map[string]interface{}\<close> (possibly a
  \<open>nil\<close> map of that type), or a value of any other dynamic type, of which only the type's
  name and a printed form are kept. Go's \<open>int\<close> is kept as an unbounded integer: the code
  does no arithmetic on it.
\<close>

datatype val =
    VNil
  | VString string
  | VInt int
  | VBool bool
  | VMap "(string \<Rightarrow> val option) option"
  | VOther string string

type_synonym gomap = "(string \<rightharpoonup> val) option"

datatype panic = AssignToNilMap

text \<open>\<open>m[k]\<close> as an expression: the stored value, or the zero value of \<open>interface{}\<close>.\<close>

definition map_get :: "gomap \<Rightarrow> string \<Rightarrow> val" where
  "map_get m k = (case m of
      None \<Rightarrow> VNil
    | Some f \<Rightarrow> (case f k of None \<Rightarrow> VNil | Some v \<Rightarrow> v))"

text \<open>\<open>delete(m, k)\<close>: a no-op on a \<open>nil\<close> map.\<close>

definition map_delete :: "gomap \<Rightarrow> string \<Rightarrow> gomap" where
  "map_delete m k = (case m of None \<Rightarrow> None | Some f \<Rightarrow> Some (f(k := None)))"

text \<open>\<open>m[k] = v\<close>: panics on a \<open>nil\<close> map.\<close>

definition map_assign :: "gomap \<Rightarrow> string \<Rightarrow> val \<Rightarrow> panic + gomap" where
  "map_assign m k v = (case m of
      None \<Rightarrow> Inl AssignToNilMap
    | Some f \<Rightarrow> Inr (Some (f(k \<mapsto> v))))"

text \<open>The key/value pairs a map holds; none for a \<open>nil\<close> map.\<close>

definition entries :: "gomap \<Rightarrow> (string \<rightharpoonup> val)" where
  "entries m = (case m of None \<Rightarrow> Map.empty | Some f \<Rightarrow> f)"

text \<open>
  The comma-ok type assertions \<open>x, ok := v.(string)\<close> and
  \<open>x, ok := v.(map[string]interface{})\<close>: they succeed exactly on a value of that dynamic
  type, yield the zero value of the target type otherwise, and never panic.
\<close>

definition assert_string :: "val \<Rightarrow> string \<times> bool" where
  "assert_string v = (case v of VString s \<Rightarrow> (s, True) | _ \<Rightarrow> ('''', False))"

definition assert_map :: "val \<Rightarrow> gomap \<times> bool" where
  "assert_map v = (case v of VMap m \<Rightarrow> (m, True) | _ \<Rightarrow> (None, False))"

text \<open>
  \<open>for key, value := range src { dst[key] = value }\<close>. Go visits every key of \<open>src\<close>
  once, in an order it does not specify; \<open>ks\<close> is the order of one run.
\<close>

definition iteration_order :: "string list \<Rightarrow> gomap \<Rightarrow> bool" where
  "iteration_order ks m \<longleftrightarrow> distinct ks \<and> set ks = dom (entries m)"

fun range_assign :: "string list \<Rightarrow> gomap \<Rightarrow> gomap \<Rightarrow> panic + gomap" where
  "range_assign [] src dst = Inr dst"
| "range_assign (k # ks) src dst = (case map_assign dst k (map_get src k) of
      Inl p \<Rightarrow> Inl p
    | Inr dst' \<Rightarrow> range_assign ks src dst')"

section \<open>Status codes (enum/status\_code.go)\<close>

type_synonym StatusCode = int

definition SUCCESS :: string where
  "SUCCESS = ''success''"

definition ERROR :: string where
  "ERROR = ''error''"

definition BadRequest :: StatusCode where
  "BadRequest = 400"

definition NotFound :: StatusCode where
  "NotFound = 404"

definition InternalServerError :: StatusCode where
  "InternalServerError = 500"

text \<open>The literal of \<open>statusDescriptions\<close>, entry by entry.\<close>

definition statusDescriptions_literal :: "(StatusCode \<times> string) list" where
  "statusDescriptions_literal = [
    (100, ''Continue''),
    (101, ''Switching Protocols''),
    (102, ''Processing''),
    (103, ''Early Hints''),
    (200, ''OK''),
    (201, ''Created''),
    (202, ''Accepted''),
    (203, ''Non-Authoritative Information''),
    (204, ''No Content''),
    (205, ''Reset Content''),
    (206, ''Partial Content''),
    (207, ''Multi-Status''),
    (208, ''Already Reported''),
    (226, ''IM Used''),
    (300, ''Multiple Choices''),
    (301, ''Moved Permanently''),
    (302, ''Found''),
    (303, ''See Other''),
    (304, ''Not Modified''),
    (305, ''Use Proxy''),
    (307, ''Temporary Redirect''),
    (308, ''Permanent Redirect''),
    (400, ''Bad Request''),
    (401, ''Unauthorized''),
    (402, ''Payment Required''),
    (403, ''Forbidden''),
    (404, ''Not Found''),
    (405, ''Method Not Allowed''),
    (406, ''Not Acceptable''),
    (407, ''Proxy Authentication Required''),
    (408, ''Request Timeout''),
    (409, ''Conflict''),
    (410, ''Gone''),
    (411, ''Length Required''),
    (412, ''Precondition Failed''),
    (413, ''Content Too Large''),
    (414, ''URI Too Long''),
    (415, ''Unsupported Media Type''),
    (416, ''Range Not Satisfiable''),
    (417, ''Expectation Failed''),
    (418, ''I'm a teapot''),
    (421, ''Misdirected Request''),
    (422, ''Unprocessable Content''),
    (423, ''Locked''),
    (424, ''Failed Dependency''),
    (425, ''Too Early''),
    (426, ''Upgrade Required''),
    (428, ''Precondition Required''),
    (429, ''Too Many Requests''),
    (431, ''Request Header Fields Too Large''),
    (451, ''Unavailable For Legal Reasons''),
    (500, ''Internal Server Error''),
    (501, ''Not Implemented''),
    (502, ''Bad Gateway''),
    (503, ''Service Unavailable''),
    (504, ''Gateway Timeout''),
    (505, ''HTTP Version Not Supported''),
    (506, ''Variant Also Negotiates''),
    (507, ''Insufficient Storage''),
    (508, ''Loop Detected''),
    (510, ''Not Extended''),
    (511, ''Network Authentication Required'')]"

type_synonym registry = "StatusCode \<rightharpoonup> string"

definition statusDescriptions :: registry where
  "statusDescriptions = map_of statusDescriptions_literal"

text \<open>
  The functions below read the package variable \<open>statusDescriptions\<close>; its current
  content is their first argument.
\<close>

definition GetValue :: "StatusCode \<Rightarrow> int" where
  "GetValue c = c"

definition GetDescription :: "registry \<Rightarrow> StatusCode \<Rightarrow> string" where
  "GetDescription reg c = (case reg c of
      Some desc \<Rightarrow> desc
    | None \<Rightarrow> ''Unknown Status Code'')"

definition NewStatusCode :: "registry \<Rightarrow> int \<Rightarrow> StatusCode \<times> bool" where
  "NewStatusCode reg v = (let s = v in
     case reg s of
       Some _ \<Rightarrow> (s, True)
     | None \<Rightarrow> (0, False))"

text \<open>
  Maps of type \<open>map[StatusCode]string\<close> live in a store and are handled through
  references. The package variable is the first object of the store; \<open>make\<close> allocates
  behind the last one. Both the literal and \<open>make\<close> give a non-nil map.
\<close>

type_synonym store = "registry list"

definition statusDescriptions_ref :: nat where
  "statusDescriptions_ref = 0"

definition initial_store :: store where
  "initial_store = [statusDescriptions]"

definition registry_of :: "store \<Rightarrow> registry" where
  "registry_of st = st ! statusDescriptions_ref"

text \<open>
  The loop of \<open>GetStatusTexts\<close>, \<open>ks\<close> being the order in which \<open>range\<close> hands out
  the keys of the source map.
\<close>

fun copy_entries :: "StatusCode list \<Rightarrow> registry \<Rightarrow> registry \<Rightarrow> registry" where
  "copy_entries [] src copyMap = copyMap"
| "copy_entries (key # ks) src copyMap = (case src key of
      Some v \<Rightarrow> copy_entries ks src (copyMap(key \<mapsto> v))
    | None \<Rightarrow> copy_entries ks src copyMap)"

definition GetStatusTexts :: "StatusCode list \<Rightarrow> store \<Rightarrow> nat \<times> store" where
  "GetStatusTexts ks st =
     (let copyMap = copy_entries ks (registry_of st) Map.empty
      in (length st, st @ [copyMap]))"

text \<open>What a caller can do to a map it holds a reference to.\<close>

datatype mutation = Assign StatusCode string | Delete StatusCode

definition mutate :: "nat \<Rightarrow> mutation \<Rightarrow> store \<Rightarrow> store" where
  "mutate r mu st =
     (if r < length st
      then st[r := (case mu of
                      Assign k v \<Rightarrow> (st ! r)(k \<mapsto> v)
                    | Delete k \<Rightarrow> (st ! r)(k := None))]
      else st)"

definition registry_order :: "StatusCode list \<Rightarrow> registry \<Rightarrow> bool" where
  "registry_order ks reg \<longleftrightarrow> distinct ks \<and> set ks = dom reg"

section \<open>Exceptions (package exception)\<close>

record CoreException =
  Message :: string
  StatusCode :: StatusCode
  Errors :: gomap
  StackTrace :: string

text \<open>
  \<open>NewInstance\<close>. \<open>trace\<close> is what \<open>debug.Stack()\<close> returns at the call. The
  \<open>delete\<close> acts on the caller's map, which the exception then holds; the model returns its
  content after the call.
\<close>

definition NewInstance :: "registry \<Rightarrow> string \<Rightarrow> gomap \<Rightarrow> StatusCode \<Rightarrow> CoreException" where
  "NewInstance reg trace errors defaultStatusCode =
     (let (message, ok) = assert_string (map_get errors ''message'')
      in if \<not> ok \<or> message = ''''
         then \<lparr>Message = GetDescription reg defaultStatusCode,
               StatusCode = defaultStatusCode,
               Errors = errors,
               StackTrace = trace\<rparr>
         else \<lparr>Message = message,
               StatusCode = defaultStatusCode,
               Errors = map_delete errors ''message'',
               StackTrace = trace\<rparr>)"

definition NewBadFunctionCall :: "registry \<Rightarrow> string \<Rightarrow> gomap \<Rightarrow> CoreException" where
  "NewBadFunctionCall reg trace errors = NewInstance reg trace errors BadRequest"

definition Error :: "CoreException \<Rightarrow> string" where
  "Error e = Message e"

definition GetStatusCode :: "CoreException \<Rightarrow> int" where
  "GetStatusCode e = GetValue (StatusCode e)"

definition GetErrors :: "CoreException \<Rightarrow> gomap" where
  "GetErrors e = Errors e"

definition GetDetails :: "CoreException \<Rightarrow> gomap" where
  "GetDetails e =
     (let (details, ok) = assert_map (map_get (Errors e) ''details'')
      in if ok then details else Some Map.empty)"

definition GetDetailsMessage :: "CoreException \<Rightarrow> string" where
  "GetDetailsMessage e =
     (let details = GetDetails e;
          (msg, ok) = assert_string (map_get details ''error'')
      in if ok then msg else '''')"

definition GetErrorsForLog :: "CoreException \<Rightarrow> gomap" where
  "GetErrorsForLog e = Some [
      ''message'' \<mapsto> VString (Message e),
      ''status_code'' \<mapsto> VInt (GetValue (StatusCode e)),
      ''errors'' \<mapsto> VMap (Errors e),
      ''stack_trace'' \<mapsto> VString (StackTrace e)]"

definition GetStackTrace :: "CoreException \<Rightarrow> string" where
  "GetStackTrace e = StackTrace e"

text \<open>
  \<open>Format\<close>; \<open>ks\<close> is the order in which \<open>range\<close> hands out the keys of
  \<open>e.Errors\<close>. The result is \<open>Inl\<close> when an assignment panics.
\<close>

definition Format :: "string list \<Rightarrow> CoreException \<Rightarrow> panic + gomap" where
  "Format ks e =
     (let formatted = Some [
            ''status'' \<mapsto> VString ERROR,
            ''error_code'' \<mapsto> VInt (GetValue (StatusCode e)),
            ''message'' \<mapsto> VString (Message e)]
      in if Errors e \<noteq> None
         then range_assign ks (Errors e) formatted
         else Inr formatted)"

section \<open>Facts about the registry\<close>

lemma registered_descriptions:
  "\<forall>(c, d) \<in> set statusDescriptions_literal.
     d \<noteq> '''' \<and> d \<noteq> ''Unknown Status Code'' \<and> c \<noteq> 0"
  by (simp add: statusDescriptions_literal_def)

lemma statusDescriptions_SomeD:
  assumes "statusDescriptions c = Some d"
  shows "d \<noteq> ''''" and "d \<noteq> ''Unknown Status Code''" and "c \<noteq> 0"
proof -
  from assms have "(c, d) \<in> set statusDescriptions_literal"
    unfolding statusDescriptions_def by (rule map_of_SomeD)
  with registered_descriptions
  have "d \<noteq> '''' \<and> d \<noteq> ''Unknown Status Code'' \<and> c \<noteq> 0"
    by blast
  then show "d \<noteq> ''''" and "d \<noteq> ''Unknown Status Code''" and "c \<noteq> 0"
    by simp_all
qed

lemma statusDescriptions_0: "statusDescriptions 0 = None"
  using statusDescriptions_SomeD(3) [of 0] by (cases "statusDescriptions 0") auto

lemma statusDescriptions_999: "statusDescriptions 999 = None"
  by (simp add: statusDescriptions_def statusDescriptions_literal_def)

lemma statusDescriptions_404: "statusDescriptions 404 = Some ''Not Found''"
  by (simp add: statusDescriptions_def statusDescriptions_literal_def)

lemma statusDescriptions_400: "statusDescriptions 400 = Some ''Bad Request''"
  by (simp add: statusDescriptions_def statusDescriptions_literal_def)

lemma statusDescriptions_keys:
  "distinct (map fst statusDescriptions_literal)"
  "dom statusDescriptions = set (map fst statusDescriptions_literal)"
  "length statusDescriptions_literal = 62"
  by (simp_all add: statusDescriptions_def dom_map_of_conv_image_fst
      statusDescriptions_literal_def)

lemma GetDescription_nonempty: "GetDescription statusDescriptions c \<noteq> ''''"
  using statusDescriptions_SomeD(1) [of c]
  by (simp add: GetDescription_def split: option.splits)

section \<open>Status codes: the claims\<close>

text \<open>
  C7. For every integer \<open>v\<close>, \<open>NewStatusCode\<close> returns \<open>(v, true)\<close> exactly when
  \<open>v\<close> is a key of the registry and \<open>(0, false)\<close> otherwise, and \<open>0\<close> is not a key
  of the registry, so the failure value is never a registered code.
\<close>

theorem NewStatusCode_registered:
  "NewStatusCode statusDescriptions v =
     (if v \<in> dom statusDescriptions then (v, True) else (0, False))
   \<and> (snd (NewStatusCode statusDescriptions v) \<longleftrightarrow> v \<in> dom statusDescriptions)
   \<and> 0 \<notin> dom statusDescriptions"
  using statusDescriptions_0
  by (auto simp: NewStatusCode_def split: option.splits)

theorem NewStatusCode_registered_witness:
  "NewStatusCode statusDescriptions 404 = (404, True)
   \<and> NewStatusCode statusDescriptions 999 = (0, False)
   \<and> NewStatusCode statusDescriptions 0 = (0, False)"
  using NewStatusCode_registered [of 404] NewStatusCode_registered [of 999]
    NewStatusCode_registered [of 0]
  by (simp add: dom_def statusDescriptions_404 statusDescriptions_999)

text \<open>
  C8. For every integer code, \<open>GetDescription\<close> returns the description the registry
  holds for it when it is registered and \<open>"Unknown Status Code"\<close> when it is not, as
  for \<open>999\<close>; it always returns, and no registered description is that sentinel.
\<close>

theorem GetDescription_registered:
  "(statusDescriptions c = Some d \<longrightarrow> GetDescription statusDescriptions c = d)
   \<and> (c \<notin> dom statusDescriptions \<longrightarrow>
        GetDescription statusDescriptions c = ''Unknown Status Code'')
   \<and> GetDescription statusDescriptions 999 = ''Unknown Status Code''
   \<and> ''Unknown Status Code'' \<notin> ran statusDescriptions"
  using statusDescriptions_SomeD(2) statusDescriptions_999
  by (auto simp: GetDescription_def ran_def split: option.splits)

theorem GetDescription_registered_witness:
  "statusDescriptions 404 = Some ''Not Found''
   \<and> GetDescription statusDescriptions 404 = ''Not Found''
   \<and> 1000 \<notin> dom statusDescriptions
   \<and> GetDescription statusDescriptions 1000 = ''Unknown Status Code''"
proof -
  have h: "statusDescriptions 404 = Some ''Not Found''"
    by (rule statusDescriptions_404)
  have n: "1000 \<notin> dom statusDescriptions"
    by (simp add: statusDescriptions_keys(2) statusDescriptions_literal_def)
  show ?thesis
    using h n GetDescription_registered [of 404 "''Not Found''"]
      GetDescription_registered [of 1000]
    by simp
qed

section \<open>Facts about maps, the range loop and the constructor\<close>

lemma map_get_entries: "map_get m k = (case entries m k of None \<Rightarrow> VNil | Some v \<Rightarrow> v)"
  by (simp add: map_get_def entries_def split: option.splits)

lemma entries_map_delete: "entries (map_delete m k) = (entries m)(k := None)"
  by (simp add: map_delete_def entries_def split: option.splits)

lemma range_assign_Some:
  "range_assign ks src (Some d) =
     Inr (Some (\<lambda>k. if k \<in> set ks then Some (map_get src k) else d k))"
proof (induction ks arbitrary: d)
  case Nil
  show ?case by simp
next
  case (Cons a ks)
  have "(\<lambda>k. if k \<in> set ks then Some (map_get src k) else (d(a \<mapsto> map_get src a)) k)
      = (\<lambda>k. if k \<in> set (a # ks) then Some (map_get src k) else d k)"
    by (auto simp: fun_eq_iff)
  then show ?case by (simp add: map_assign_def Cons.IH)
qed

lemma range_assign_flatten:
  assumes "iteration_order ks src"
  shows "range_assign ks src (Some d) = Inr (Some (d ++ entries src))"
proof -
  from assms have ks: "set ks = dom (entries src)" by (simp add: iteration_order_def)
  have "(\<lambda>k. if k \<in> set ks then Some (map_get src k) else d k) = d ++ entries src"
    by (auto simp: fun_eq_iff ks map_add_def map_get_entries split: option.splits)
  then show ?thesis by (simp add: range_assign_Some)
qed

lemma Format_flatten:
  assumes "iteration_order ks (Errors e)"
  shows "Format ks e = Inr (Some ([''status'' \<mapsto> VString ERROR,
           ''error_code'' \<mapsto> VInt (GetStatusCode e),
           ''message'' \<mapsto> VString (Error e)] ++ entries (GetErrors e)))"
proof (cases "Errors e")
  case None
  then show ?thesis
    by (simp add: Format_def entries_def GetStatusCode_def Error_def GetErrors_def)
next
  case (Some f)
  then show ?thesis
    using range_assign_flatten [OF assms]
    by (simp add: Format_def GetStatusCode_def Error_def GetErrors_def)
qed

lemma NewInstance_cases:
  "NewInstance reg trace errors code =
     (case entries errors ''message'' of
        Some (VString v) \<Rightarrow>
          if v = ''''
          then \<lparr>Message = GetDescription reg code, StatusCode = code, Errors = errors,
                StackTrace = trace\<rparr>
          else \<lparr>Message = v, StatusCode = code, Errors = map_delete errors ''message'',
                StackTrace = trace\<rparr>
      | _ \<Rightarrow> \<lparr>Message = GetDescription reg code, StatusCode = code, Errors = errors,
                StackTrace = trace\<rparr>)"
  by (simp add: NewInstance_def map_get_entries assert_string_def
      split: option.splits val.splits)

lemma NewInstance_supplied:
  assumes "entries errors ''message'' = Some (VString v)" and "v \<noteq> ''''"
  shows "NewInstance reg trace errors code =
     \<lparr>Message = v, StatusCode = code, Errors = map_delete errors ''message'',
      StackTrace = trace\<rparr>"
  using assms by (simp add: NewInstance_cases)

lemma NewInstance_default:
  assumes "\<nexists>v. entries errors ''message'' = Some (VString v) \<and> v \<noteq> ''''"
  shows "NewInstance reg trace errors code =
     \<lparr>Message = GetDescription reg code, StatusCode = code, Errors = errors,
      StackTrace = trace\<rparr>"
  using assms by (auto simp: NewInstance_cases split: option.splits val.splits)

lemma NewInstance_entries:
  "entries (Errors (NewInstance reg trace errors code)) k =
     (if k = ''message'' \<and> (\<exists>v. entries errors ''message'' = Some (VString v) \<and> v \<noteq> '''')
      then None else entries errors k)"
  by (auto simp: NewInstance_cases entries_map_delete split: option.splits val.splits)

section \<open>Exceptions: the claims\<close>

text \<open>
  C1. For a constructed error, \<open>Format\<close> returns the fixed mapping of \<open>status\<close>,
  \<open>error_code\<close> and \<open>message\<close> overridden by every entry of the detail bag: each
  key of the bag carries the bag's value in the result, also when it is one of the three
  fixed keys, and every other key carries the fixed value. With \<open>"status": "pending"\<close>
  among the details given to the constructor, the result holds \<open>"pending"\<close> under
  \<open>status\<close>.
\<close>

theorem Format_detail_bag_wins:
  assumes "e = NewInstance reg trace errors code"
    and "iteration_order ks (GetErrors e)"
  shows "\<exists>out. Format ks e = Inr (Some out)
     \<and> out = [''status'' \<mapsto> VString ERROR,
              ''error_code'' \<mapsto> VInt (GetStatusCode e),
              ''message'' \<mapsto> VString (Error e)] ++ entries (GetErrors e)
     \<and> (\<forall>k v. entries (GetErrors e) k = Some v \<longrightarrow> out k = Some v)
     \<and> (\<forall>k. k \<notin> dom (entries (GetErrors e)) \<longrightarrow>
           out k = [''status'' \<mapsto> VString ERROR,
                    ''error_code'' \<mapsto> VInt (GetStatusCode e),
                    ''message'' \<mapsto> VString (Error e)] k)
     \<and> (entries errors ''status'' = Some (VString ''pending'') \<longrightarrow>
           out ''status'' = Some (VString ''pending''))"
proof -
  let ?fixed = "[''status'' \<mapsto> VString ERROR,
              ''error_code'' \<mapsto> VInt (GetStatusCode e),
              ''message'' \<mapsto> VString (Error e)]"
  let ?out = "?fixed ++ entries (GetErrors e)"
  from assms(2) have a: "Format ks e = Inr (Some ?out)"
    by (simp add: Format_flatten GetErrors_def)
  have b: "\<forall>k v. entries (GetErrors e) k = Some v \<longrightarrow> ?out k = Some v"
    by (simp add: map_add_def)
  have c: "\<forall>k. k \<notin> dom (entries (GetErrors e)) \<longrightarrow> ?out k = ?fixed k"
    by (simp add: map_add_def domIff)
  have d: "entries errors ''status'' = Some (VString ''pending'') \<longrightarrow>
      ?out ''status'' = Some (VString ''pending'')"
    by (simp add: map_add_def GetErrors_def assms(1) NewInstance_entries)
  show ?thesis
    by (rule exI [of _ ?out]) (intro conjI a b c d refl)
qed

theorem Format_detail_bag_wins_witness:
  "let e = NewInstance statusDescriptions ''trace''
             (Some [''message'' \<mapsto> VString ''keep-already-consumed'',
                    ''message_extra'' \<mapsto> VString ''Y'',
                    ''status'' \<mapsto> VString ''pending'']) BadRequest
   in iteration_order [''status'', ''message_extra''] (GetErrors e)
      \<and> (\<exists>out. Format [''status'', ''message_extra''] e = Inr (Some out)
            \<and> out ''status'' = Some (VString ''pending'')
            \<and> out ''message_extra'' = Some (VString ''Y'')
            \<and> out ''message'' = Some (VString ''keep-already-consumed'')
            \<and> out ''error_code'' = Some (VInt 400))"
proof -
  define e where "e = NewInstance statusDescriptions ''trace''
             (Some [''message'' \<mapsto> VString ''keep-already-consumed'',
                    ''message_extra'' \<mapsto> VString ''Y'',
                    ''status'' \<mapsto> VString ''pending'']) BadRequest"
  have e: "e = \<lparr>Message = ''keep-already-consumed'', StatusCode = 400,
      Errors = Some [''message_extra'' \<mapsto> VString ''Y'', ''status'' \<mapsto> VString ''pending''],
      StackTrace = ''trace''\<rparr>"
    by (auto simp: e_def NewInstance_def map_get_def assert_string_def map_delete_def
        BadRequest_def fun_eq_iff)
  have h: "iteration_order [''status'', ''message_extra''] (GetErrors e)"
    by (auto simp: e iteration_order_def GetErrors_def entries_def)
  from Format_detail_bag_wins [OF e_def h]
  show ?thesis
    unfolding Let_def e_def [symmetric]
    using h by (auto simp: e GetErrors_def entries_def Error_def GetStatusCode_def GetValue_def map_add_def)
qed

text \<open>
  C2. When the details hold a non-empty string \<open>v\<close> under \<open>message\<close>, the
  constructed error's message is \<open>v\<close> and its detail bag is the details without the
  \<open>message\<close> key. When they hold no such value, the message is the description of the
  default status code.
\<close>

theorem NewInstance_message:
  "(entries errors ''message'' = Some (VString v) \<and> v \<noteq> '''' \<longrightarrow>
       Error (NewInstance reg trace errors code) = v
     \<and> ''message'' \<notin> dom (entries (GetErrors (NewInstance reg trace errors code)))
     \<and> entries (GetErrors (NewInstance reg trace errors code)) =
         (entries errors)(''message'' := None))
   \<and> ((\<nexists>w. entries errors ''message'' = Some (VString w) \<and> w \<noteq> '''') \<longrightarrow>
       Error (NewInstance reg trace errors code) = GetDescription reg code)"
proof (intro conjI impI)
  assume a: "entries errors ''message'' = Some (VString v) \<and> v \<noteq> ''''"
  then have e: "NewInstance reg trace errors code =
      \<lparr>Message = v, StatusCode = code, Errors = map_delete errors ''message'',
       StackTrace = trace\<rparr>"
    by (simp add: NewInstance_supplied)
  show "Error (NewInstance reg trace errors code) = v"
    by (simp add: e Error_def)
  show "''message'' \<notin> dom (entries (GetErrors (NewInstance reg trace errors code)))"
    by (simp add: e GetErrors_def entries_map_delete)
  show "entries (GetErrors (NewInstance reg trace errors code)) =
      (entries errors)(''message'' := None)"
    by (simp add: e GetErrors_def entries_map_delete)
next
  assume "\<nexists>w. entries errors ''message'' = Some (VString w) \<and> w \<noteq> ''''"
  then show "Error (NewInstance reg trace errors code) = GetDescription reg code"
    by (simp add: NewInstance_default Error_def)
qed

theorem NewInstance_message_witness:
  "Error (NewInstance statusDescriptions ''trace''
      (Some [''message'' \<mapsto> VString ''X'', ''field'' \<mapsto> VInt 7]) NotFound) = ''X''
   \<and> ''message'' \<notin> dom (entries (GetErrors (NewInstance statusDescriptions ''trace''
      (Some [''message'' \<mapsto> VString ''X'', ''field'' \<mapsto> VInt 7]) NotFound)))
   \<and> Error (NewInstance statusDescriptions ''trace''
      (Some [''field'' \<mapsto> VInt 7]) NotFound) = ''Not Found''"
  using
    NewInstance_message [of "Some [''message'' \<mapsto> VString ''X'', ''field'' \<mapsto> VInt 7]"
      "''X''" statusDescriptions "''trace''" NotFound]
    NewInstance_message [of "Some [''field'' \<mapsto> VInt 7]" "''X''" statusDescriptions
      "''trace''" NotFound]
  by (simp add: entries_def GetDescription_def NotFound_def statusDescriptions_404)

text \<open>
  C3 as stated fails: the constructor removes \<open>message\<close> only when it has taken the
  message from it. With an empty string or an integer under \<open>message\<close>, the detail bag
  of the constructed error still has the key.
\<close>

theorem NewInstance_message_key_counterexample:
  "''message'' \<in> dom (entries (GetErrors (NewInstance statusDescriptions ''trace''
      (Some [''message'' \<mapsto> VString '''']) BadRequest)))
   \<and> ''message'' \<in> dom (entries (GetErrors (NewInstance statusDescriptions ''trace''
      (Some [''message'' \<mapsto> VInt 42]) BadRequest)))"
  by (simp add: NewInstance_def map_get_def assert_string_def GetErrors_def entries_def)

text \<open>
  C3, amended. When the details have no \<open>message\<close> key, or hold a non-empty string
  under it, the detail bag of the constructed error has no \<open>message\<close> key: not as
  \<open>GetErrors\<close> returns it, not as \<open>GetErrorsForLog\<close> nests it under
  \<open>errors\<close>, and \<open>Format\<close> shows the error's own message under \<open>message\<close>.
  When the details hold an empty string or a value that is not a string under
  \<open>message\<close>, the constructor leaves them as they are, and the key stays in the bag.
\<close>

theorem NewInstance_message_key:
  "((entries errors ''message'' = None
      \<or> (\<exists>v. entries errors ''message'' = Some (VString v) \<and> v \<noteq> '''')) \<longrightarrow>
       ''message'' \<notin> dom (entries (GetErrors (NewInstance reg trace errors code)))
     \<and> entries (GetErrorsForLog (NewInstance reg trace errors code)) ''errors'' =
         Some (VMap (GetErrors (NewInstance reg trace errors code)))
     \<and> (iteration_order ks (GetErrors (NewInstance reg trace errors code)) \<longrightarrow>
         (\<exists>out. Format ks (NewInstance reg trace errors code) = Inr (Some out)
            \<and> out ''message'' = Some (VString (Error (NewInstance reg trace errors code))))))
   \<and> ((\<exists>x. entries errors ''message'' = Some x \<and> (\<forall>v. x = VString v \<longrightarrow> v = '''')) \<longrightarrow>
       GetErrors (NewInstance reg trace errors code) = errors
     \<and> ''message'' \<in> dom (entries (GetErrors (NewInstance reg trace errors code))))"
proof (intro conjI impI)
  let ?e = "NewInstance reg trace errors code"
  assume a: "entries errors ''message'' = None
      \<or> (\<exists>v. entries errors ''message'' = Some (VString v) \<and> v \<noteq> '''')"
  then show n: "''message'' \<notin> dom (entries (GetErrors ?e))"
    by (auto simp: GetErrors_def NewInstance_entries domIff)
  show "entries (GetErrorsForLog ?e) ''errors'' = Some (VMap (GetErrors ?e))"
    by (simp add: GetErrorsForLog_def entries_def GetErrors_def)
  assume "iteration_order ks (GetErrors ?e)"
  then have "Format ks ?e = Inr (Some ([''status'' \<mapsto> VString ERROR,
           ''error_code'' \<mapsto> VInt (GetStatusCode ?e),
           ''message'' \<mapsto> VString (Error ?e)] ++ entries (GetErrors ?e)))"
    by (simp add: Format_flatten GetErrors_def)
  moreover from n have "([''status'' \<mapsto> VString ERROR,
           ''error_code'' \<mapsto> VInt (GetStatusCode ?e),
           ''message'' \<mapsto> VString (Error ?e)] ++ entries (GetErrors ?e)) ''message''
        = Some (VString (Error ?e))"
    by (simp add: map_add_def domIff)
  ultimately show "\<exists>out. Format ks ?e = Inr (Some out)
      \<and> out ''message'' = Some (VString (Error ?e))"
    by simp
next
  let ?e = "NewInstance reg trace errors code"
  assume a: "\<exists>x. entries errors ''message'' = Some x \<and> (\<forall>v. x = VString v \<longrightarrow> v = '''')"
  then have "\<nexists>v. entries errors ''message'' = Some (VString v) \<and> v \<noteq> ''''"
    by auto
  then show u: "GetErrors ?e = errors"
    by (simp add: NewInstance_default GetErrors_def)
  from a show "''message'' \<in> dom (entries (GetErrors ?e))"
    by (auto simp: u)
qed

theorem NewInstance_message_key_witness:
  "''message'' \<notin> dom (entries (GetErrors (NewInstance statusDescriptions ''trace''
      (Some [''message'' \<mapsto> VString ''X'', ''field'' \<mapsto> VInt 7]) BadRequest)))
   \<and> iteration_order [''field''] (GetErrors (NewInstance statusDescriptions ''trace''
      (Some [''message'' \<mapsto> VString ''X'', ''field'' \<mapsto> VInt 7]) BadRequest))
   \<and> (\<exists>out. Format [''field''] (NewInstance statusDescriptions ''trace''
      (Some [''message'' \<mapsto> VString ''X'', ''field'' \<mapsto> VInt 7]) BadRequest) = Inr (Some out)
        \<and> out ''message'' = Some (VString ''X''))
   \<and> GetErrors (NewInstance statusDescriptions ''trace''
      (Some [''message'' \<mapsto> VBool True]) BadRequest) = Some [''message'' \<mapsto> VBool True]
   \<and> ''message'' \<in> dom (entries (GetErrors (NewInstance statusDescriptions ''trace''
      (Some [''message'' \<mapsto> VBool True]) BadRequest)))"
proof -
  let ?d = "Some [''message'' \<mapsto> VString ''X'', ''field'' \<mapsto> VInt 7]"
  let ?e = "NewInstance statusDescriptions ''trace'' ?d BadRequest"
  let ?d' = "Some [''message'' \<mapsto> VBool True]"
  let ?e' = "NewInstance statusDescriptions ''trace'' ?d' BadRequest"
  have a: "entries ?d ''message'' = None
      \<or> (\<exists>v. entries ?d ''message'' = Some (VString v) \<and> v \<noteq> '''')"
    by (simp add: entries_def)
  have m: "Error ?e = ''X''"
    by (simp add: NewInstance_def map_get_def assert_string_def Error_def)
  have h: "iteration_order [''field''] (GetErrors ?e)"
    by (auto simp: NewInstance_def map_get_def assert_string_def map_delete_def
        iteration_order_def GetErrors_def entries_def)
  have b: "\<exists>x. entries ?d' ''message'' = Some x \<and> (\<forall>v. x = VString v \<longrightarrow> v = '''')"
    by (simp add: entries_def)
  note t = NewInstance_message_key [where errors = ?d and ks = "[''field'']"
      and reg = statusDescriptions and trace = "''trace''" and code = BadRequest]
  note t' = NewInstance_message_key [where errors = ?d' and ks = "[]"
      and reg = statusDescriptions and trace = "''trace''" and code = BadRequest]
  from t [THEN conjunct1, THEN mp, OF a]
  have n: "''message'' \<notin> dom (entries (GetErrors ?e))"
    and f: "iteration_order [''field''] (GetErrors ?e) \<longrightarrow>
      (\<exists>out. Format [''field''] ?e = Inr (Some out)
        \<and> out ''message'' = Some (VString (Error ?e)))"
    by blast+
  from f h have o: "\<exists>out. Format [''field''] ?e = Inr (Some out)
        \<and> out ''message'' = Some (VString ''X'')"
    by (simp add: m)
  from t' [THEN conjunct2, THEN mp, OF b]
  have u: "GetErrors ?e' = ?d'" and k: "''message'' \<in> dom (entries (GetErrors ?e'))"
    by blast+
  show ?thesis
    by (intro conjI n h o u k)
qed

text \<open>
  C4. For every details mapping and every default status code, registered or not, the
  message of the constructed error is not empty: it is the description of the code (the
  sentinel description for an unregistered one), itself never empty, or the non-empty
  string the caller supplied under \<open>message\<close>.
\<close>

theorem NewInstance_message_nonempty:
  "Error (NewInstance statusDescriptions trace errors code) \<noteq> ''''
   \<and> (Error (NewInstance statusDescriptions trace errors code) =
         GetDescription statusDescriptions code
       \<or> (\<exists>v. v \<noteq> '''' \<and> entries errors ''message'' = Some (VString v)
             \<and> Error (NewInstance statusDescriptions trace errors code) = v))
   \<and> GetDescription statusDescriptions code \<noteq> ''''"
  using GetDescription_nonempty [of code]
  by (auto simp: NewInstance_cases Error_def split: option.splits val.splits)

theorem NewInstance_message_nonempty_witness:
  "Error (NewInstance statusDescriptions ''trace''
      (Some [''message'' \<mapsto> VString '''']) 999) = ''Unknown Status Code''
   \<and> Error (NewInstance statusDescriptions ''trace''
      (Some [''message'' \<mapsto> VString '''']) 999) \<noteq> ''''
   \<and> Error (NewInstance statusDescriptions ''trace''
      (Some [''message'' \<mapsto> VString ''X'']) 999) = ''X''"
  using
    NewInstance_message_nonempty [of "''trace''" "Some [''message'' \<mapsto> VString '''']" 999]
    NewInstance_message_nonempty [of "''trace''" "Some [''message'' \<mapsto> VString ''X'']" 999]
  by (simp add: NewInstance_def map_get_def assert_string_def Error_def GetDescription_def
      statusDescriptions_999)

text \<open>
  C5. \<open>GetErrorsForLog\<close> returns a mapping with exactly the keys \<open>message\<close>,
  \<open>status_code\<close>, \<open>errors\<close> and \<open>stack_trace\<close>. They hold the error's message,
  status code value, whole detail bag (nested, not flattened) and stack trace, whatever
  keys the detail bag has.
\<close>

theorem GetErrorsForLog_reserved_keys:
  "\<exists>out. GetErrorsForLog e = Some out
     \<and> dom out = {''message'', ''status_code'', ''errors'', ''stack_trace''}
     \<and> out ''message'' = Some (VString (Error e))
     \<and> out ''status_code'' = Some (VInt (GetStatusCode e))
     \<and> out ''errors'' = Some (VMap (GetErrors e))
     \<and> out ''stack_trace'' = Some (VString (GetStackTrace e))"
  by (auto simp: GetErrorsForLog_def Error_def GetStatusCode_def GetErrors_def
      GetStackTrace_def)

theorem GetErrorsForLog_reserved_keys_witness:
  "\<exists>out. GetErrorsForLog (NewInstance statusDescriptions ''trace''
        (Some [''errors'' \<mapsto> VInt 1, ''stack_trace'' \<mapsto> VString ''mine'',
               ''status_code'' \<mapsto> VInt 200]) BadRequest) = Some out
     \<and> dom out = {''message'', ''status_code'', ''errors'', ''stack_trace''}
     \<and> out ''message'' = Some (VString ''Bad Request'')
     \<and> out ''status_code'' = Some (VInt 400)
     \<and> out ''errors'' = Some (VMap (Some [''errors'' \<mapsto> VInt 1,
           ''stack_trace'' \<mapsto> VString ''mine'', ''status_code'' \<mapsto> VInt 200]))
     \<and> out ''stack_trace'' = Some (VString ''trace'')"
  using GetErrorsForLog_reserved_keys [of "NewInstance statusDescriptions ''trace''
        (Some [''errors'' \<mapsto> VInt 1, ''stack_trace'' \<mapsto> VString ''mine'',
               ''status_code'' \<mapsto> VInt 200]) BadRequest"]
  by (simp add: NewInstance_def map_get_def assert_string_def Error_def GetStatusCode_def
      GetValue_def GetErrors_def GetStackTrace_def GetDescription_def BadRequest_def
      statusDescriptions_400)

text \<open>
  C6. \<open>GetDetails\<close> returns the value under \<open>details\<close> in the detail bag when it
  is there and is a string-keyed map, and an empty map otherwise. \<open>GetDetailsMessage\<close>
  returns the string under \<open>error\<close> in that result when it is there and is a string,
  and the empty string otherwise. Both are total: a missing key or a value of another type
  takes the fallback branch.
\<close>

theorem GetDetails_nested:
  "(entries (GetErrors e) ''details'' = Some (VMap m) \<longrightarrow> GetDetails e = m)
   \<and> ((\<nexists>m'. entries (GetErrors e) ''details'' = Some (VMap m')) \<longrightarrow>
        GetDetails e = Some Map.empty)
   \<and> (entries (GetDetails e) ''error'' = Some (VString s) \<longrightarrow> GetDetailsMessage e = s)
   \<and> ((\<nexists>s'. entries (GetDetails e) ''error'' = Some (VString s')) \<longrightarrow>
        GetDetailsMessage e = '''')"
proof (intro conjI impI)
  assume "entries (GetErrors e) ''details'' = Some (VMap m)"
  then show "GetDetails e = m"
    by (simp add: GetDetails_def GetErrors_def map_get_entries assert_map_def)
next
  assume "\<nexists>m'. entries (GetErrors e) ''details'' = Some (VMap m')"
  then show "GetDetails e = Some Map.empty"
    by (auto simp: GetDetails_def GetErrors_def map_get_entries assert_map_def
        split: option.splits val.splits)
next
  assume "entries (GetDetails e) ''error'' = Some (VString s)"
  then show "GetDetailsMessage e = s"
    by (simp add: GetDetailsMessage_def Let_def map_get_entries assert_string_def)
next
  assume "\<nexists>s'. entries (GetDetails e) ''error'' = Some (VString s')"
  then show "GetDetailsMessage e = ''''"
    by (auto simp: GetDetailsMessage_def Let_def map_get_entries assert_string_def
        split: option.splits val.splits)
qed

theorem GetDetails_nested_witness:
  "GetDetails (NewInstance statusDescriptions ''trace''
      (Some [''details'' \<mapsto> VMap (Some [''error'' \<mapsto> VString ''E''])]) BadRequest)
     = Some [''error'' \<mapsto> VString ''E'']
   \<and> GetDetailsMessage (NewInstance statusDescriptions ''trace''
      (Some [''details'' \<mapsto> VMap (Some [''error'' \<mapsto> VString ''E''])]) BadRequest) = ''E''
   \<and> GetDetails (NewInstance statusDescriptions ''trace''
      (Some [''details'' \<mapsto> VString ''flat'']) BadRequest) = Some Map.empty
   \<and> GetDetailsMessage (NewInstance statusDescriptions ''trace''
      (Some [''details'' \<mapsto> VString ''flat'']) BadRequest) = ''''"
proof -
  let ?n = "Some [''error'' \<mapsto> VString ''E'']"
  let ?e = "NewInstance statusDescriptions ''trace'' (Some [''details'' \<mapsto> VMap ?n]) BadRequest"
  let ?e' = "NewInstance statusDescriptions ''trace''
      (Some [''details'' \<mapsto> VString ''flat'']) BadRequest"
  have a: "entries (GetErrors ?e) ''details'' = Some (VMap ?n)"
    by (simp add: NewInstance_def map_get_def assert_string_def GetErrors_def entries_def)
  note t = GetDetails_nested [where e = ?e and m = ?n and s = "''E''"]
  from t [THEN conjunct1, THEN mp, OF a] have d: "GetDetails ?e = ?n" .
  have b: "entries (GetDetails ?e) ''error'' = Some (VString ''E'')"
    by (simp add: d entries_def)
  from t [THEN conjunct2, THEN conjunct2, THEN conjunct1, THEN mp, OF b]
  have g: "GetDetailsMessage ?e = ''E''" .
  have a': "\<nexists>m'. entries (GetErrors ?e') ''details'' = Some (VMap m')"
    by (simp add: NewInstance_def map_get_def assert_string_def GetErrors_def entries_def)
  note t' = GetDetails_nested [where e = ?e' and m = None and s = "''''"]
  from t' [THEN conjunct2, THEN conjunct1, THEN mp, OF a']
  have d': "GetDetails ?e' = Some Map.empty" .
  have b': "\<nexists>s'. entries (GetDetails ?e') ''error'' = Some (VString s')"
    by (simp add: d' entries_def)
  from t' [THEN conjunct2, THEN conjunct2, THEN conjunct2, THEN mp, OF b']
  have g': "GetDetailsMessage ?e' = ''''" .
  show ?thesis
    by (intro conjI d g d' g')
qed

text \<open>
  C10. Constructed with a \<open>nil\<close> details map, the error has the description of the
  default code as its message and the \<open>nil\<close> map as its detail bag;
  \<open>GetDetails\<close> returns an empty map, \<open>GetDetailsMessage\<close> the empty string, and
  \<open>Format\<close> returns, without a panic, a mapping with exactly the keys \<open>status\<close>,
  \<open>error_code\<close> and \<open>message\<close>.
\<close>

theorem NewInstance_nil_details:
  "Error (NewInstance reg trace None code) = GetDescription reg code
   \<and> GetErrors (NewInstance reg trace None code) = None
   \<and> entries (GetErrors (NewInstance reg trace None code)) = Map.empty
   \<and> GetDetails (NewInstance reg trace None code) = Some Map.empty
   \<and> GetDetailsMessage (NewInstance reg trace None code) = ''''
   \<and> (\<exists>out. Format ks (NewInstance reg trace None code) = Inr (Some out)
        \<and> dom out = {''status'', ''error_code'', ''message''}
        \<and> out = [''status'' \<mapsto> VString ERROR,
                  ''error_code'' \<mapsto> VInt code,
                  ''message'' \<mapsto> VString (GetDescription reg code)])"
proof -
  have e: "NewInstance reg trace None code =
      \<lparr>Message = GetDescription reg code, StatusCode = code, Errors = None,
       StackTrace = trace\<rparr>"
    by (simp add: NewInstance_def map_get_def assert_string_def)
  show ?thesis
    by (auto simp: e Error_def GetErrors_def entries_def GetDetails_def GetDetailsMessage_def
        map_get_def assert_map_def assert_string_def Format_def GetValue_def)
qed

theorem NewInstance_nil_details_witness:
  "Error (NewInstance statusDescriptions ''trace'' None NotFound) = ''Not Found''
   \<and> GetErrors (NewInstance statusDescriptions ''trace'' None NotFound) = None
   \<and> GetDetails (NewInstance statusDescriptions ''trace'' None NotFound) = Some Map.empty
   \<and> GetDetailsMessage (NewInstance statusDescriptions ''trace'' None NotFound) = ''''
   \<and> Format [] (NewInstance statusDescriptions ''trace'' None NotFound) =
       Inr (Some [''status'' \<mapsto> VString ''error'',
                  ''error_code'' \<mapsto> VInt 404,
                  ''message'' \<mapsto> VString ''Not Found''])"
  using NewInstance_nil_details [of statusDescriptions "''trace''" NotFound "[]"]
  by (simp add: GetDescription_def NotFound_def statusDescriptions_404 ERROR_def)

end
